theory Spec2Isabelle
  imports Complex_Main "HOL-Library.Signed_Division"
begin

section \<open>Panoramic spectrum dialog of SigDigger: data model\<close>

text \<open>
  The development embeds \<^verbatim>\<open>src/Components/PanoramicDialog.cpp\<close>.

  Conventions of the embedding.
  \<^item> \<^verbatim>\<open>qint64\<close> values are \<^typ>\<open>int\<close>. The frequencies handled by the dialog are bounded
    by the spin boxes (the LNB offset alone is limited to \<open>\<plusminus>300e9\<close>), far from \<open>2^63\<close>, so
    no wrap-around is written out.
  \<^item> \<^verbatim>\<open>SUFREQ\<close> (double) and \<^verbatim>\<open>SUFLOAT\<close>/\<^verbatim>\<open>float\<close> values are \<^typ>\<open>real\<close>: rounding
    of the binary formats is not part of the model. The one comparison that the source
    carries out in single precision is a parameter (see \<open>getZoomRange\<close>).
  \<^item> C++ integer division truncates towards zero: it is \<open>sdiv\<close>, not \<open>div\<close>.
  \<^item> \<^verbatim>\<open>static_cast<qint64>\<close> of a double truncates towards zero: \<open>qint64_cast\<close>.
  \<^item> A member function that dereferences \<^verbatim>\<open>m_waterfall\<close> without a null check returns
    \<open>None\<close> when the pointer is null.
  \<^item> Signals emitted by a slot are returned as a list, in order of emission.
  \<^item> The frame counter and \<^verbatim>\<open>m_minBwForZoom\<close> (a \<^verbatim>\<open>quint64\<close>) are \<^typ>\<open>nat\<close>.
\<close>

definition qint64_cast :: "real \<Rightarrow> int" where
  "qint64_cast x = (if 0 \<le> x then \<lfloor>x\<rfloor> else \<lceil>x\<rceil>)"

text \<open>\<^verbatim>\<open>SavedSpectrum\<close>: the snapshot kept for export.\<close>

record SavedSpectrum =
  sp_start :: int
  sp_end :: int
  sp_data :: "real list"

text \<open>
  The waterfall widget belongs to another library; the record holds the values the dialog
  stores into it through its setters and reads back through its getters.
  \<open>partialFft\<close> is \<open>None\<close> after \<^verbatim>\<open>clearPartialFftData\<close>.
\<close>

record Waterfall =
  centerFreq :: int
  fftCenterFreq :: int
  spanFreq :: int
  sampleRate :: int
  freqUnits :: int
  partialFft :: "(real list \<times> int \<times> int) option"
  demodRanges :: "real \<times> real \<times> real \<times> real \<times> bool"
  hiLowCut :: "real \<times> real"

text \<open>
  The members of \<^verbatim>\<open>PanoramicDialog\<close> and the widgets of \<^verbatim>\<open>m_ui\<close> that the modelled
  functions read or write. A spin box is its value: \<^verbatim>\<open>setValue\<close> stores, \<^verbatim>\<open>value\<close> reads.
\<close>

record PanoramicDialog =
  rangeStartSpin :: real
  rangeEndSpin :: real
  relBwSlider :: int
  exportButtonEnabled :: bool
  m_waterfall :: "Waterfall option"
  m_minBwForZoom :: nat
  m_running :: bool
  m_fixedFreqMode :: bool
  m_currBw :: int
  m_freqStart :: int
  m_freqEnd :: int
  m_saved :: SavedSpectrum
  m_frames :: nat

datatype signal = DetailChanged int int bool

section \<open>Scan range\<close>

definition getMinFreq :: "PanoramicDialog \<Rightarrow> real" where
  "getMinFreq s = rangeStartSpin s"

definition getMaxFreq :: "PanoramicDialog \<Rightarrow> real" where
  "getMaxFreq s = rangeEndSpin s"

definition getFrequencyUnits :: "int \<Rightarrow> int" where
  "getFrequencyUnits freq0 =
     (let freq = (if freq0 < 0 then - freq0 else freq0) in
      if freq < 1000 then 1
      else if freq < 1000000 then 1000
      else if freq < 1000000000 then 1000000
      else 1000000000)"

text \<open>The first statement of \<^verbatim>\<open>adjustRanges\<close>: swap min and max if reversed.\<close>

definition swapReversed :: "PanoramicDialog \<Rightarrow> PanoramicDialog" where
  "swapReversed s =
     (if rangeStartSpin s > rangeEndSpin s
      then (let val = rangeStartSpin s in
            s\<lparr>rangeStartSpin := rangeEndSpin s, rangeEndSpin := val\<rparr>)
      else s)"

definition invalidRange :: "PanoramicDialog \<Rightarrow> bool" where
  "invalidRange s = (\<bar>rangeEndSpin s - rangeStartSpin s\<bar> < 1)"

section \<open>Zoom and pan\<close>

text \<open>
  The clamp-and-shift block. It appears twice in the source with the same text: in
  \<^verbatim>\<open>getZoomRange\<close> (from \<^verbatim>\<open>min = fc - span / 2\<close> to the end of the border test) and in
  \<^verbatim>\<open>onNewFftCenterFreq\<close>. \<open>spn\<close> is the source's \<^verbatim>\<open>span\<close> (the name is taken in HOL),
  \<open>lo\<close> and \<open>hi\<close> are \<^verbatim>\<open>getMinFreq()\<close> and \<^verbatim>\<open>getMaxFreq()\<close>.
\<close>

definition clampShift :: "int \<Rightarrow> int \<Rightarrow> real \<Rightarrow> real \<Rightarrow> int \<times> int" where
  "clampShift fc spn lo hi =
     (let min0 = fc - spn sdiv 2;
          max0 = fc + spn sdiv 2;
          leftBorder = (real_of_int min0 \<le> lo);
          min1 = (if leftBorder then qint64_cast lo else min0);
          rightBorder = (real_of_int max0 \<ge> hi);
          max1 = (if rightBorder then qint64_cast hi else max0)
      in if leftBorder \<and> \<not> rightBorder then (min1, min1 + spn)
         else if rightBorder \<and> \<not> leftBorder then (max1 - spn, max1)
         else (min1, max1))"

text \<open>
  The last statement of \<^verbatim>\<open>getZoomRange\<close> is
  \<^verbatim>\<open>noHop = max - min <= m_minBwForZoom * getRelBw()\<close>, where \<^verbatim>\<open>getRelBw\<close> returns the value
  of the slider divided by \<^verbatim>\<open>100.f\<close>. The division, the product and the comparison are in
  single precision. Their rounding is not modelled: the outcome of the comparison is the
  parameter \<open>floatLe\<close>, applied to the three integers that the statement reads, the width
  \<^verbatim>\<open>max - min\<close>, \<^verbatim>\<open>m_minBwForZoom\<close> and the value of the slider.
\<close>

definition getZoomRange ::
  "(int \<Rightarrow> nat \<Rightarrow> int \<Rightarrow> bool) \<Rightarrow> PanoramicDialog \<Rightarrow> (int \<times> int \<times> bool) option" where
  "getZoomRange floatLe s =
     (case m_waterfall s of
        None \<Rightarrow> None
      | Some w \<Rightarrow>
          (let fc = centerFreq w + fftCenterFreq w;
               spn = spanFreq w;
               (mn, mx) = clampShift fc spn (getMinFreq s) (getMaxFreq s);
               noHop = floatLe (mx - mn) (m_minBwForZoom s) (relBwSlider s)
           in Some (mn, mx, noHop)))"

definition onNewZoomLevel ::
  "(int \<Rightarrow> nat \<Rightarrow> int \<Rightarrow> bool) \<Rightarrow> PanoramicDialog
     \<Rightarrow> (PanoramicDialog \<times> signal list) option" where
  "onNewZoomLevel floatLe s =
     (case getZoomRange floatLe s of
        None \<Rightarrow> None
      | Some (mn, mx, noHop) \<Rightarrow>
          (let s1 = s\<lparr>m_fixedFreqMode := noHop\<rparr>;
               s2 = s1\<lparr>m_currBw := mx - mn\<rparr>
           in Some (s2, if m_running s2 then [DetailChanged mn mx (m_fixedFreqMode s2)] else [])))"

definition onNewFftCenterFreq ::
  "PanoramicDialog \<Rightarrow> int \<Rightarrow> (PanoramicDialog \<times> signal list) option" where
  "onNewFftCenterFreq s freq0 =
     (if \<not> m_running s then Some (s, [])
      else case m_waterfall s of
        None \<Rightarrow> None
      | Some w \<Rightarrow>
          (let freq = freq0 + centerFreq w;
               spn = m_currBw s;
               (mn, mx) = clampShift freq spn (getMinFreq s) (getMaxFreq s)
           in Some (s, [DetailChanged mn mx (m_fixedFreqMode s)])))"

text \<open>A run of pan events, one call of the slot per offset, the signals in order.\<close>

fun pans :: "PanoramicDialog \<Rightarrow> int list \<Rightarrow> (PanoramicDialog \<times> signal list) option" where
  "pans s [] = Some (s, [])"
| "pans s (f # fs) =
     (case onNewFftCenterFreq s f of
        None \<Rightarrow> None
      | Some (s1, out) \<Rightarrow>
          (case pans s1 fs of
             None \<Rightarrow> None
           | Some (s2, outs) \<Rightarrow> Some (s2, out @ outs)))"

fun signalFlag :: "signal \<Rightarrow> bool" where
  "signalFlag (DetailChanged mn mx fixed) = fixed"

section \<open>Range change\<close>

text \<open>
  \<^verbatim>\<open>connectWaterfall\<close> connects five signals of the waterfall to slots of the dialog. Two of
  the slots read or write the members modelled here: \<^verbatim>\<open>newZoomLevel\<close> runs
  \<^verbatim>\<open>onNewZoomLevel\<close> and \<^verbatim>\<open>newFftCenterFreq\<close> runs \<^verbatim>\<open>onNewFftCenterFreq\<close>. (The other
  three refresh labels or store the display range.) A signal that the widget emits inside
  one of its own functions runs its slot before that function returns.
\<close>

datatype wsignal = NewZoomLevel | NewFftCenterFreq int

definition slot ::
  "(int \<Rightarrow> nat \<Rightarrow> int \<Rightarrow> bool) \<Rightarrow> PanoramicDialog \<Rightarrow> wsignal
     \<Rightarrow> (PanoramicDialog \<times> signal list) option" where
  "slot floatLe s e =
     (case e of
        NewZoomLevel \<Rightarrow> onNewZoomLevel floatLe s
      | NewFftCenterFreq f \<Rightarrow> onNewFftCenterFreq s f)"

text \<open>
  The slots run for a list of signals of the waterfall, in order. A slot fails only on a null
  \<^verbatim>\<open>m_waterfall\<close>, which the sender of the signals excludes; the run stops there.
\<close>

fun runSlots ::
  "(int \<Rightarrow> nat \<Rightarrow> int \<Rightarrow> bool) \<Rightarrow> PanoramicDialog \<Rightarrow> wsignal list
     \<Rightarrow> PanoramicDialog \<times> signal list" where
  "runSlots floatLe s [] = (s, [])"
| "runSlots floatLe s (e # es) =
     (case slot floatLe s e of
        None \<Rightarrow> (s, [])
      | Some (s1, out) \<Rightarrow>
          (let (s2, outs) = runSlots floatLe s1 es in (s2, out @ outs)))"

text \<open>
  The block of \<^verbatim>\<open>adjustRanges\<close> guarded by \<^verbatim>\<open>if (m_waterfall)\<close>, in three parts: the
  four setters before \<^verbatim>\<open>resetHorizontalZoom\<close>, the reset, and the calls after it. The
  setters store their arguments. What \<^verbatim>\<open>resetHorizontalZoom\<close> does inside the widget is
  the parameter \<open>rz\<close>: it gives the widget after the reset and the signals emitted during
  it, whose slots run on the dialog at that point.
\<close>

definition waterfallBeforeReset :: "real \<Rightarrow> real \<Rightarrow> Waterfall \<Rightarrow> Waterfall" where
  "waterfallBeforeReset minFreq maxFreq w0 =
     (let w1 = w0\<lparr>freqUnits := getFrequencyUnits (qint64_cast maxFreq)\<rparr>;
          w2 = w1\<lparr>spanFreq := qint64_cast (maxFreq - minFreq)\<rparr>;
          w3 = w2\<lparr>sampleRate := qint64_cast (maxFreq - minFreq)\<rparr>
      in w3\<lparr>centerFreq := qint64_cast (maxFreq + minFreq) sdiv 2\<rparr>)"

definition waterfallAfterReset :: "real \<Rightarrow> real \<Rightarrow> Waterfall \<Rightarrow> Waterfall" where
  "waterfallAfterReset minFreq maxFreq w5 =
     (let bw = maxFreq - minFreq;
          w6 = w5\<lparr>partialFft := None\<rparr>;
          demodBw0 = bw / 20;
          demodBw = (if demodBw0 > 4000000000 then 4000000000 else demodBw0);
          w7 = w6\<lparr>demodRanges := (- bw / 2, 0, 0, bw / 2, True)\<rparr>
      in w7\<lparr>hiLowCut := (- demodBw / 2, demodBw / 2)\<rparr>)"

definition adjustRanges ::
  "(int \<Rightarrow> nat \<Rightarrow> int \<Rightarrow> bool) \<Rightarrow> (Waterfall \<Rightarrow> Waterfall \<times> wsignal list)
     \<Rightarrow> PanoramicDialog \<Rightarrow> PanoramicDialog \<times> signal list" where
  "adjustRanges floatLe rz s0 =
     (let s = swapReversed s0 in
      case m_waterfall s of
        None \<Rightarrow> (s, [])
      | Some w \<Rightarrow>
          (let minFreq = rangeStartSpin s;
               maxFreq = rangeEndSpin s;
               (w5, raised) = rz (waterfallBeforeReset minFreq maxFreq w);
               (s1, sigs) = runSlots floatLe (s\<lparr>m_waterfall := Some w5\<rparr>) raised
           in (s1\<lparr>m_waterfall := Some (waterfallAfterReset minFreq maxFreq w5)\<rparr>, sigs)))"

definition onFreqRangeChanged ::
  "(int \<Rightarrow> nat \<Rightarrow> int \<Rightarrow> bool) \<Rightarrow> (Waterfall \<Rightarrow> Waterfall \<times> wsignal list)
     \<Rightarrow> PanoramicDialog \<Rightarrow> PanoramicDialog \<times> signal list" where
  "onFreqRangeChanged floatLe rz s = adjustRanges floatLe rz s"

section \<open>Frames and export\<close>

text \<open>\<^verbatim>\<open>SavedSpectrum::set\<close>. The pointer and its size are the list of the samples.\<close>

definition saved_set :: "int \<Rightarrow> int \<Rightarrow> real list \<Rightarrow> SavedSpectrum \<Rightarrow> SavedSpectrum" where
  "saved_set start fin dat sv = sv\<lparr>sp_start := start, sp_end := fin, sp_data := dat\<rparr>"

text \<open>
  \<^verbatim>\<open>PanoramicDialog::feed\<close>. The closing \<^verbatim>\<open>redrawMeasures\<close> only refreshes labels and is
  left out.
\<close>

definition feed :: "PanoramicDialog \<Rightarrow> int \<Rightarrow> int \<Rightarrow> real list \<Rightarrow> PanoramicDialog option" where
  "feed s freqStart freqEnd dat =
     (let s1 = (if m_freqStart s \<noteq> freqStart \<or> m_freqEnd s \<noteq> freqEnd
                then s\<lparr>m_freqStart := freqStart, m_freqEnd := freqEnd\<rparr> else s);
          s2 = s1\<lparr>m_saved := saved_set freqStart freqEnd dat (m_saved s1)\<rparr>;
          s3 = s2\<lparr>exportButtonEnabled := True\<rparr>
      in case m_waterfall s3 of
           None \<Rightarrow> None
         | Some w \<Rightarrow>
             Some (s3\<lparr>m_waterfall := Some (w\<lparr>partialFft := Some (dat, freqStart, freqEnd)\<rparr>),
                      m_frames := m_frames s3 + 1\<rparr>))"

text \<open>Decimal output of an integer, as \<^verbatim>\<open>operator<<\<close> prints a \<^verbatim>\<open>qint64\<close>.\<close>

definition digit_char :: "nat \<Rightarrow> char" where
  "digit_char d = ''0123456789'' ! d"

fun show_nat :: "nat \<Rightarrow> string" where
  "show_nat n = (if n < 10 then [digit_char n] else show_nat (n div 10) @ [digit_char (n mod 10)])"

declare show_nat.simps [simp del]

definition show_qint64 :: "int \<Rightarrow> string" where
  "show_qint64 i = (if i < 0 then CHR ''-'' # show_nat (nat (- i)) else show_nat (nat i))"

text \<open>
  The loop \<^verbatim>\<open>for (auto p : this->data) of << p << " "\<close>. How a \<^verbatim>\<open>float\<close> prints at
  precision \<^verbatim>\<open>digits10\<close> is the parameter \<open>fmt\<close>.
\<close>

fun writeSamples :: "(real \<Rightarrow> string) \<Rightarrow> real list \<Rightarrow> string" where
  "writeSamples fmt [] = []"
| "writeSamples fmt (p # ps) = fmt p @ '' '' @ writeSamples fmt ps"

definition exportText :: "(real \<Rightarrow> string) \<Rightarrow> SavedSpectrum \<Rightarrow> string" where
  "exportText fmt sv =
     ''%\<newline>'' @
     ''% Panoramic Spectrum file generated by SigDigger\<newline>'' @
     ''%\<newline>\<newline>'' @
     ''freqMin = '' @ show_qint64 (sp_start sv) @ '';\<newline>'' @
     ''freqMax = '' @ show_qint64 (sp_end sv) @ '';\<newline>'' @
     ''PSD = [ '' @
     writeSamples fmt (sp_data sv) @
     ''];\<newline>''"

text \<open>
  \<^verbatim>\<open>SavedSpectrum::exportToFile\<close>. \<open>canOpen\<close> tells whether the output stream opens on a
  path; \<open>files\<close> maps a path to the contents of the file. Opening truncates the file; a
  stream that did not open leaves the files as they are. The function does not test the
  stream after writing.
\<close>

definition exportToFile ::
  "(string \<Rightarrow> bool) \<Rightarrow> (real \<Rightarrow> string) \<Rightarrow> (string \<rightharpoonup> string) \<Rightarrow> SavedSpectrum \<Rightarrow> string
     \<Rightarrow> bool \<times> (string \<rightharpoonup> string)" where
  "exportToFile canOpen fmt files sv path =
     (if \<not> canOpen path then (False, files)
      else (True, files(path \<mapsto> exportText fmt sv)))"

text \<open>
  The export script as the specification words it: the lines of the file, the samples of the
  \<^verbatim>\<open>PSD\<close> line separated by single blanks.
\<close>

fun unwords :: "string list \<Rightarrow> string" where
  "unwords [] = []"
| "unwords [x] = x"
| "unwords (x # y # ys) = x @ '' '' @ unwords (y # ys)"

definition unlines :: "string list \<Rightarrow> string" where
  "unlines ls = concat (map (\<lambda>l. l @ ''\<newline>'') ls)"

definition spec_script :: "(real \<Rightarrow> string) \<Rightarrow> int \<Rightarrow> int \<Rightarrow> real list \<Rightarrow> string list" where
  "spec_script fmt start fin samples =
     [''%'',
      ''% Panoramic Spectrum file generated by SigDigger'',
      ''%'',
      '''',
      ''freqMin = '' @ show_qint64 start @ '';'',
      ''freqMax = '' @ show_qint64 fin @ '';'',
      ''PSD = [ '' @ unwords (map fmt samples) @ '' ];'']"

section \<open>Gain store\<close>

text \<open>
  \<^verbatim>\<open>PanoramicDialogConfig::gains\<close> is a \<^verbatim>\<open>std::map<std::string, SUFLOAT>\<close>; the three
  accessors build the key \<^verbatim>\<open>"gain." + dev + "." + name\<close>.
\<close>

type_synonym gains = "string \<rightharpoonup> real"

definition fullName :: "string \<Rightarrow> string \<Rightarrow> string" where
  "fullName dev name = ''gain.'' @ dev @ ''.'' @ name"

definition hasGain :: "gains \<Rightarrow> string \<Rightarrow> string \<Rightarrow> bool" where
  "hasGain g dev name = (g (fullName dev name) \<noteq> None)"

definition getGain :: "gains \<Rightarrow> string \<Rightarrow> string \<Rightarrow> real" where
  "getGain g dev name = (case g (fullName dev name) of None \<Rightarrow> 0 | Some v \<Rightarrow> v)"

definition setGain :: "gains \<Rightarrow> string \<Rightarrow> string \<Rightarrow> real \<Rightarrow> gains" where
  "setGain g dev name val = g(fullName dev name \<mapsto> val)"

section \<open>Band plans\<close>

text \<open>
  \<^verbatim>\<open>Suscan::Object\<close> as far as the loader uses it. A band entry is an object: the list of
  its named fields, each a number or a text. The \<^verbatim>\<open>bands\<close> value of a table is a set of
  entries or something else.
\<close>

datatype su_value = FloatV real | StringV string

type_synonym su_object = "(string \<times> su_value) list"

datatype su_bands = SuSet "su_object list" | SuNoSet

datatype exn = SuscanException

text \<open>
  Modelled from the spec: \<^verbatim>\<open>Suscan::Object::get(name, default)\<close> on a numeric field; the class
  is declared in \<^verbatim>\<open>Suscan/Library.h\<close> and its code is not among the sources. The
  specification has the loader parse the numeric \<^verbatim>\<open>min\<close> and \<^verbatim>\<open>max\<close> of each band and
  calls an entry without \<^verbatim>\<open>min\<close> malformed: such an entry is skipped. The loader skips an
  entry when reading it raises \<^verbatim>\<open>Suscan::Exception\<close>. So the read raises when the entry has
  no number under the name, and the default plays no part.
\<close>

definition su_get_float :: "su_object \<Rightarrow> string \<Rightarrow> real \<Rightarrow> exn + real" where
  "su_get_float obj name dfl =
     (case map_of obj name of Some (FloatV x) \<Rightarrow> Inr x | _ \<Rightarrow> Inl SuscanException)"

text \<open>
  Modelled from the spec: \<^verbatim>\<open>Suscan::Object::get(name, default)\<close> on a text field, from the
  same class. The specification gives the colour its default when the value is absent; the
  three other texts are read by the same call.
\<close>

definition su_get_string :: "su_object \<Rightarrow> string \<Rightarrow> string \<Rightarrow> string" where
  "su_get_string obj name dfl =
     (case map_of obj name of Some (StringV x) \<Rightarrow> x | _ \<Rightarrow> dfl)"

text \<open>Sequencing of calls that may throw: the first exception ends the function.\<close>

definition thenE :: "exn + 'a \<Rightarrow> ('a \<Rightarrow> exn + 'b) \<Rightarrow> exn + 'b" where
  "thenE r f = (case r of Inl e \<Rightarrow> Inl e | Inr x \<Rightarrow> f x)"

text \<open>
  \<^verbatim>\<open>FrequencyBand\<close>; the colour is the text given to \<^verbatim>\<open>setNamedColor\<close>.
\<close>

record FrequencyBand =
  band_min :: int
  band_max :: int
  band_primary :: string
  band_secondary :: string
  band_footnotes :: string
  band_color :: string

definition deserializeFrequencyBand :: "su_object \<Rightarrow> exn + FrequencyBand" where
  "deserializeFrequencyBand obj =
     thenE (su_get_float obj ''min'' 0) (\<lambda>mn.
     thenE (su_get_float obj ''max'' 0) (\<lambda>mx.
       Inr \<lparr>band_min = qint64_cast mn, band_max = qint64_cast mx,
            band_primary = su_get_string obj ''primary'' [],
            band_secondary = su_get_string obj ''secondary'' [],
            band_footnotes = su_get_string obj ''footnotes'' [],
            band_color = su_get_string obj ''color'' ''#1f1f1f''\<rparr>))"

text \<open>
  \<^verbatim>\<open>FrequencyAllocationTable\<close>: a name and the bands received through \<^verbatim>\<open>pushBand\<close>, in
  the order of the calls. A raw table is the pair of its \<^verbatim>\<open>name\<close> and \<^verbatim>\<open>bands\<close> fields.
\<close>

record FrequencyAllocationTable =
  fat_name :: string
  fat_bands :: "FrequencyBand list"

record raw_table =
  raw_name :: string
  raw_bands :: su_bands

text \<open>
  The inner loop of \<^verbatim>\<open>deserializeFATs\<close>: each entry is deserialised inside
  \<^verbatim>\<open>try\<close>, and the handler of \<^verbatim>\<open>Suscan::Exception\<close> is empty.
\<close>

fun pushBands :: "su_object list \<Rightarrow> FrequencyAllocationTable \<Rightarrow> FrequencyAllocationTable" where
  "pushBands [] t = t"
| "pushBands (e # es) t =
     (case deserializeFrequencyBand e of
        Inr band \<Rightarrow> pushBands es (t\<lparr>fat_bands := fat_bands t @ [band]\<rparr>)
      | Inl SuscanException \<Rightarrow> pushBands es t)"

text \<open>
  The outer loop. The new table is stored before \<^verbatim>\<open>SU_ATTEMPT\<close> tests that \<^verbatim>\<open>bands\<close> is a
  set; the test is outside \<^verbatim>\<open>try\<close>, so its failure leaves the function with the tables
  built so far. The result is \<^verbatim>\<open>m_FATs\<close> and the exception that escaped, if any.
\<close>

fun loadTables ::
  "raw_table list \<Rightarrow> FrequencyAllocationTable list
     \<Rightarrow> FrequencyAllocationTable list \<times> exn option" where
  "loadTables [] fats = (fats, None)"
| "loadTables (p # ps) fats =
     (let t = \<lparr>fat_name = raw_name p, fat_bands = []\<rparr> in
      case raw_bands p of
        SuSet entries \<Rightarrow> loadTables ps (fats @ [pushBands entries t])
      | SuNoSet \<Rightarrow> (fats @ [t], Some SuscanException))"

text \<open>
  \<^verbatim>\<open>deserializeFATs\<close>, first block: the catalog is read only while \<^verbatim>\<open>m_FATs\<close> is empty.
  (The second block fills a combo box.)
\<close>

definition deserializeFATs ::
  "raw_table list \<Rightarrow> FrequencyAllocationTable list
     \<Rightarrow> FrequencyAllocationTable list \<times> exn option" where
  "deserializeFATs catalog m_FATs =
     (if length m_FATs = 0 then loadTables catalog m_FATs else (m_FATs, None))"

section \<open>Concrete inputs\<close>

text \<open>
  A dialog scanning 0 Hz to 100 Hz: the waterfall is centred on 50 Hz and shows the whole
  range, the zoom threshold \<^verbatim>\<open>m_minBwForZoom * getRelBw()\<close> is \<open>20 * 0.5 = 10\<close> Hz, no frame
  has been fed. The examples below are updates of this state.
\<close>

definition exWaterfall :: Waterfall where
  "exWaterfall =
     \<lparr>centerFreq = 50, fftCenterFreq = 0, spanFreq = 100, sampleRate = 100, freqUnits = 1,
      partialFft = None, demodRanges = (- 50, 0, 0, 50, True), hiLowCut = (- 5 / 2, 5 / 2)\<rparr>"

definition exDialog :: PanoramicDialog where
  "exDialog =
     \<lparr>rangeStartSpin = 0, rangeEndSpin = 100, relBwSlider = 50, exportButtonEnabled = False,
      m_waterfall = Some exWaterfall, m_minBwForZoom = 20, m_running = True,
      m_fixedFreqMode = False, m_currBw = 100, m_freqStart = 0, m_freqEnd = 0,
      m_saved = \<lparr>sp_start = 0, sp_end = 0, sp_data = []\<rparr>, m_frames = 0\<rparr>"

text \<open>The same dialog with the waterfall zoomed to span \<open>spn\<close> around \<open>50 + off\<close>.\<close>

definition exZoomed :: "int \<Rightarrow> int \<Rightarrow> PanoramicDialog" where
  "exZoomed off spn = exDialog\<lparr>m_waterfall := Some (exWaterfall\<lparr>fftCenterFreq := off, spanFreq := spn\<rparr>)\<rparr>"

text \<open>The same dialog after the frame \<^verbatim>\<open>feed(1000000, 2000000, {1, 2, 3})\<close>.\<close>

definition exSnapshot :: SavedSpectrum where
  "exSnapshot = \<lparr>sp_start = 1000000, sp_end = 2000000, sp_data = [1, 2, 3]\<rparr>"

definition exFed :: PanoramicDialog where
  "exFed = exDialog\<lparr>exportButtonEnabled := True, m_freqStart := 1000000, m_freqEnd := 2000000,
                     m_saved := exSnapshot, m_frames := 1\<rparr>"

text \<open>
  The state that this frame leaves: the waterfall holds the frame as well.
\<close>

definition exScanned :: PanoramicDialog where
  "exScanned =
     exFed\<lparr>m_waterfall := Some (exWaterfall\<lparr>partialFft := Some ([1, 2, 3], 1000000, 2000000)\<rparr>)\<rparr>"

text \<open>
  Two instances of the parameter \<open>rz\<close>. Both centre the view and show the whole sample
  rate again; \<open>exReset\<close> emits \<^verbatim>\<open>newZoomLevel\<close> while doing so, \<open>exQuietReset\<close> emits
  nothing.
\<close>

definition exReset :: "Waterfall \<Rightarrow> Waterfall \<times> wsignal list" where
  "exReset w = (w\<lparr>fftCenterFreq := 0, spanFreq := sampleRate w\<rparr>, [NewZoomLevel])"

definition exQuietReset :: "Waterfall \<Rightarrow> Waterfall \<times> wsignal list" where
  "exQuietReset w = (w\<lparr>fftCenterFreq := 0, spanFreq := sampleRate w\<rparr>, [])"

text \<open>
  An instance of the parameter \<open>floatLe\<close>: the comparison over exact numbers. On the
  inputs of the examples (widths below 1000, the threshold \<open>20 * 0.5\<close>) every number is a
  single-precision value and nothing is rounded.
\<close>

definition exFloatLe :: "int \<Rightarrow> nat \<Rightarrow> int \<Rightarrow> bool" where
  "exFloatLe width minBw slider = (real_of_int width \<le> real minBw * (real_of_int slider / 100))"

text \<open>
  An instance of the parameter \<open>fmt\<close>, used on whole samples only: a whole value of at
  most six digits prints as the integer.
\<close>

definition exFmt :: "real \<Rightarrow> string" where
  "exFmt x = show_qint64 (qint64_cast x)"

text \<open>
  A catalog of two tables. The first entry of the first table has no \<^verbatim>\<open>min\<close>; the other
  two entries have both bounds.
\<close>

definition exEntry :: su_object where
  "exEntry = [(''min'', FloatV 300), (''max'', FloatV 400), (''primary'', StringV ''FIXED'')]"

definition exBand :: FrequencyBand where
  "exBand = \<lparr>band_min = 300, band_max = 400, band_primary = ''FIXED'', band_secondary = [],
             band_footnotes = [], band_color = ''#1f1f1f''\<rparr>"

definition exEntry2 :: su_object where
  "exEntry2 = [(''min'', FloatV 500), (''max'', FloatV 600), (''color'', StringV ''#ff0000'')]"

definition exBand2 :: FrequencyBand where
  "exBand2 = \<lparr>band_min = 500, band_max = 600, band_primary = [], band_secondary = [],
              band_footnotes = [], band_color = ''#ff0000''\<rparr>"

definition exCatalogNoMin :: "raw_table list" where
  "exCatalogNoMin =
     [\<lparr>raw_name = ''ITU'', raw_bands = SuSet [[(''max'', FloatV 200)], exEntry]\<rparr>,
      \<lparr>raw_name = ''EU'', raw_bands = SuSet [exEntry2]\<rparr>]"

section \<open>Auxiliary facts\<close>

lemmas ex_defs = exZoomed_def exDialog_def exWaterfall_def exFed_def exSnapshot_def exScanned_def

lemma qint64_cast_of_int: "qint64_cast (real_of_int a) = a"
  by (simp add: qint64_cast_def)

lemma sdiv2_nonneg: "0 \<le> (k::int) \<Longrightarrow> k sdiv 2 = k div 2"
  by (simp add: signed_divide_int_def sgn_if)

text \<open>With whole-hertz bounds the clamp-and-shift block has four outcomes.\<close>

lemma clampShift_cases:
  "clampShift fc spn (real_of_int a) (real_of_int b) =
     (if fc - spn sdiv 2 \<le> a \<and> \<not> b \<le> fc + spn sdiv 2 then (a, a + spn)
      else if b \<le> fc + spn sdiv 2 \<and> \<not> fc - spn sdiv 2 \<le> a then (b - spn, b)
      else if fc - spn sdiv 2 \<le> a then (a, b)
      else (fc - spn sdiv 2, fc + spn sdiv 2))"
  by (simp add: clampShift_def Let_def qint64_cast_of_int)

lemma clampShift_both:
  assumes "fc - spn sdiv 2 \<le> a" "b \<le> fc + spn sdiv 2"
  shows "clampShift fc spn (real_of_int a) (real_of_int b) = (a, b)"
  using assms by (simp add: clampShift_cases)

lemma clampShift_within:
  assumes "spn \<le> b - a" "clampShift fc spn (real_of_int a) (real_of_int b) = (mn, mx)"
  shows "a \<le> mn \<and> mx \<le> b"
  using assms unfolding clampShift_cases by (auto split: if_splits)

lemma clampShift_width:
  assumes "0 \<le> spn" "spn \<le> b - a"
    and "clampShift fc spn (real_of_int a) (real_of_int b) = (mn, mx)"
  shows "mx - mn =
     (if fc - spn sdiv 2 \<le> a \<or> b \<le> fc + spn sdiv 2 then spn else 2 * (spn div 2))"
  using assms unfolding clampShift_cases by (auto split: if_splits simp: sdiv2_nonneg)

lemma getZoomRange_Some:
  assumes "m_waterfall s = Some w"
  shows "getZoomRange floatLe s =
     (let r = clampShift (centerFreq w + fftCenterFreq w) (spanFreq w) (getMinFreq s) (getMaxFreq s)
      in Some (fst r, snd r, floatLe (snd r - fst r) (m_minBwForZoom s) (relBwSlider s)))"
  using assms by (simp add: getZoomRange_def Let_def split_beta)

lemma swapReversed_spins:
  "rangeStartSpin (swapReversed s) = min (rangeStartSpin s) (rangeEndSpin s)"
  "rangeEndSpin (swapReversed s) = max (rangeStartSpin s) (rangeEndSpin s)"
  by (simp_all add: swapReversed_def Let_def)

lemma onNewFftCenterFreq_frame:
  assumes "m_waterfall s = Some w"
  shows "\<exists>mn mx. onNewFftCenterFreq s f =
           Some (s, if m_running s then [DetailChanged mn mx (m_fixedFreqMode s)] else [])"
  using assms by (simp add: onNewFftCenterFreq_def Let_def split_beta)

lemma getZoomRange_total:
  assumes "m_waterfall s = Some w"
  shows "\<exists>mn mx nh. getZoomRange floatLe s = Some (mn, mx, nh)"
  using assms by (simp add: getZoomRange_def Let_def split_beta)

lemma getZoomRange_frame:
  "getZoomRange floatLe (s\<lparr>m_fixedFreqMode := f, m_currBw := b\<rparr>) = getZoomRange floatLe s"
  by (simp add: getZoomRange_def getMinFreq_def getMaxFreq_def split: option.split)

lemma onNewZoomLevel_Some:
  assumes "getZoomRange floatLe s = Some (mn, mx, nh)"
  shows "\<exists>out. onNewZoomLevel floatLe s = Some (s\<lparr>m_fixedFreqMode := nh, m_currBw := mx - mn\<rparr>, out)"
  using assms by (simp add: onNewZoomLevel_def Let_def)

lemma runSlots_state:
  assumes "m_waterfall s = Some w" and "getZoomRange floatLe s = Some (mn, mx, nh)"
  shows "fst (runSlots floatLe s es) =
           (if NewZoomLevel \<in> set es then s\<lparr>m_fixedFreqMode := nh, m_currBw := mx - mn\<rparr> else s)"
  using assms
proof (induction es arbitrary: s)
  case Nil
  show ?case by simp
next
  case (Cons e es)
  show ?case
  proof (cases e)
    case NewZoomLevel
    define z where "z = s\<lparr>m_fixedFreqMode := nh, m_currBw := mx - mn\<rparr>"
    obtain out where sl: "slot floatLe s e = Some (z, out)"
      using onNewZoomLevel_Some [OF Cons.prems(2)] NewZoomLevel by (auto simp: slot_def z_def)
    have zw: "m_waterfall z = Some w" using Cons.prems(1) by (simp add: z_def)
    have zz: "getZoomRange floatLe z = Some (mn, mx, nh)"
      using Cons.prems(2) by (simp add: z_def getZoomRange_frame)
    have "fst (runSlots floatLe z es) = z"
      using Cons.IH [OF zw zz] by (simp add: z_def)
    then show ?thesis
      using sl NewZoomLevel by (simp add: split_beta z_def)
  next
    case (NewFftCenterFreq f)
    obtain out where sl: "slot floatLe s e = Some (s, out)"
      using onNewFftCenterFreq_frame [OF Cons.prems(1), of f] NewFftCenterFreq
      by (auto simp: slot_def)
    show ?thesis
      using sl NewFftCenterFreq Cons.IH [OF Cons.prems] by (simp add: split_beta)
  qed
qed

lemma runSlots_fields:
  assumes "m_waterfall s = Some w"
  shows "rangeStartSpin (fst (runSlots floatLe s es)) = rangeStartSpin s"
    and "rangeEndSpin (fst (runSlots floatLe s es)) = rangeEndSpin s"
    and "m_saved (fst (runSlots floatLe s es)) = m_saved s"
proof -
  obtain mn mx nh where z: "getZoomRange floatLe s = Some (mn, mx, nh)"
    using getZoomRange_total [OF assms] by blast
  note st = runSlots_state [OF assms z, of es]
  show "rangeStartSpin (fst (runSlots floatLe s es)) = rangeStartSpin s"
    and "rangeEndSpin (fst (runSlots floatLe s es)) = rangeEndSpin s"
    and "m_saved (fst (runSlots floatLe s es)) = m_saved s"
    by (simp_all add: st)
qed

lemma swapReversed_frame:
  "m_saved (swapReversed s) = m_saved s"
  "m_fixedFreqMode (swapReversed s) = m_fixedFreqMode s"
  "m_currBw (swapReversed s) = m_currBw s"
  "m_waterfall (swapReversed s) = m_waterfall s"
  by (simp_all add: swapReversed_def Let_def)

text \<open>The result of \<^verbatim>\<open>adjustRanges\<close>, without and with a waterfall.\<close>

lemma adjustRanges_None:
  assumes "m_waterfall s = None"
  shows "adjustRanges floatLe rz s = (swapReversed s, [])"
  using assms by (simp add: adjustRanges_def Let_def swapReversed_frame)

lemma adjustRanges_Some:
  assumes "m_waterfall s = Some w"
  shows "fst (adjustRanges floatLe rz s) =
     (fst (runSlots floatLe
        ((swapReversed s)\<lparr>m_waterfall := Some (fst (rz (waterfallBeforeReset
            (rangeStartSpin (swapReversed s)) (rangeEndSpin (swapReversed s)) w)))\<rparr>)
        (snd (rz (waterfallBeforeReset
            (rangeStartSpin (swapReversed s)) (rangeEndSpin (swapReversed s)) w)))))
       \<lparr>m_waterfall := Some (waterfallAfterReset
            (rangeStartSpin (swapReversed s)) (rangeEndSpin (swapReversed s))
            (fst (rz (waterfallBeforeReset
               (rangeStartSpin (swapReversed s)) (rangeEndSpin (swapReversed s)) w))))\<rparr>"
  using assms by (simp add: adjustRanges_def Let_def swapReversed_frame split_beta)

lemma adjustRanges_spins:
  "rangeStartSpin (fst (adjustRanges floatLe rz s)) = rangeStartSpin (swapReversed s)"
  "rangeEndSpin (fst (adjustRanges floatLe rz s)) = rangeEndSpin (swapReversed s)"
proof -
  show "rangeStartSpin (fst (adjustRanges floatLe rz s)) = rangeStartSpin (swapReversed s)"
  proof (cases "m_waterfall s")
    case None
    then show ?thesis by (simp add: adjustRanges_None)
  next
    case (Some w)
    show ?thesis
      by (simp add: adjustRanges_Some [OF Some] runSlots_fields(1) [where w = "fst (rz (waterfallBeforeReset
            (rangeStartSpin (swapReversed s)) (rangeEndSpin (swapReversed s)) w))"])
  qed
  show "rangeEndSpin (fst (adjustRanges floatLe rz s)) = rangeEndSpin (swapReversed s)"
  proof (cases "m_waterfall s")
    case None
    then show ?thesis by (simp add: adjustRanges_None)
  next
    case (Some w)
    show ?thesis
      by (simp add: adjustRanges_Some [OF Some] runSlots_fields(2) [where w = "fst (rz (waterfallBeforeReset
            (rangeStartSpin (swapReversed s)) (rangeEndSpin (swapReversed s)) w))"])
  qed
qed

lemma hiLowCut_waterfallAfterReset:
  "hiLowCut (waterfallAfterReset lo hi w) =
     (- (min ((hi - lo) / 20 / 2) 2000000000), min ((hi - lo) / 20 / 2) 2000000000)"
  by (simp add: waterfallAfterReset_def Let_def min_def)

lemma partialFft_waterfallAfterReset: "partialFft (waterfallAfterReset lo hi w) = None"
  by (simp add: waterfallAfterReset_def Let_def)

section \<open>The zoom window (C1)\<close>

text \<open>
  C1, as amended. Let the scan bounds be whole numbers of hertz \<open>a\<close> and \<open>b\<close> and the span
  of the waterfall be non-negative. Then \<^verbatim>\<open>getZoomRange\<close> returns a window such that:
  when both borders are hit the window is the whole scan range \<open>(a, b)\<close>; and when the scan
  range is at least as wide as the span, the window lies inside the scan range, its width is
  the span or the span less one, and it is the span exactly whenever a border was hit or the
  span is even. (Without a border the two halves \<^verbatim>\<open>span / 2\<close> are truncated, so an odd span
  loses one hertz.)
\<close>

theorem getZoomRange_window:
  assumes wf: "m_waterfall s = Some w"
    and lo: "getMinFreq s = real_of_int a"
    and hi: "getMaxFreq s = real_of_int b"
    and nonneg: "0 \<le> spanFreq w"
  shows "\<exists>mn mx noHop. getZoomRange floatLe s = Some (mn, mx, noHop) \<and>
           (centerFreq w + fftCenterFreq w - spanFreq w sdiv 2 \<le> a \<and>
            b \<le> centerFreq w + fftCenterFreq w + spanFreq w sdiv 2 \<longrightarrow> mn = a \<and> mx = b) \<and>
           (spanFreq w \<le> b - a \<longrightarrow>
              a \<le> mn \<and> mx \<le> b \<and>
              (mx - mn = spanFreq w \<or> mx - mn = spanFreq w - 1) \<and>
              (mn = a \<or> mx = b \<or> even (spanFreq w) \<longrightarrow> mx - mn = spanFreq w))"
proof -
  define fc where "fc = centerFreq w + fftCenterFreq w"
  define spn where "spn = spanFreq w"
  obtain mn mx where cs: "clampShift fc spn (real_of_int a) (real_of_int b) = (mn, mx)"
    by (cases "clampShift fc spn (real_of_int a) (real_of_int b)")
  have z: "getZoomRange floatLe s =
      Some (mn, mx, floatLe (mx - mn) (m_minBwForZoom s) (relBwSlider s))"
    using getZoomRange_Some [OF wf, of floatLe] cs by (simp add: lo hi fc_def spn_def)
  have both: "mn = a \<and> mx = b" if "fc - spn sdiv 2 \<le> a" "b \<le> fc + spn sdiv 2"
    using clampShift_both [OF that] cs by simp
  have rest: "a \<le> mn \<and> mx \<le> b \<and> (mx - mn = spn \<or> mx - mn = spn - 1) \<and>
      (mn = a \<or> mx = b \<or> even spn \<longrightarrow> mx - mn = spn)" if le: "spn \<le> b - a"
  proof -
    have wd: "mx - mn =
        (if fc - spn sdiv 2 \<le> a \<or> b \<le> fc + spn sdiv 2 then spn else 2 * (spn div 2))"
      using clampShift_width [OF _ le cs] nonneg by (simp add: spn_def)
    have inside: "a \<le> mn \<and> mx \<le> b"
      by (rule clampShift_within [OF le cs])
    have free: "mn = fc - spn sdiv 2 \<and> mx = fc + spn sdiv 2"
      if "\<not> (fc - spn sdiv 2 \<le> a \<or> b \<le> fc + spn sdiv 2)"
      using that cs by (simp add: clampShift_cases)
    have c1: "mx - mn = spn \<or> mx - mn = spn - 1"
      using wd by (auto split: if_splits)
    have c2: "mx - mn = spn" if "mn = a \<or> mx = b \<or> even spn"
      using that wd free by (auto split: if_splits)
    show ?thesis using inside c1 c2 by blast
  qed
  show ?thesis
    using z both rest unfolding fc_def spn_def by blast
qed

text \<open>
  Two instances. Zoomed to 30 Hz around 10 Hz in the range 0 to 100 Hz, the left border is
  hit and the window is \<open>(0, 30)\<close>. Zoomed to 150 Hz around 50 Hz, both borders are hit and
  the window is the scan range.
\<close>

theorem getZoomRange_window_witness:
  "m_waterfall (exZoomed (- 40) 30) = Some (exWaterfall\<lparr>fftCenterFreq := - 40, spanFreq := 30\<rparr>) \<and>
   getMinFreq (exZoomed (- 40) 30) = real_of_int 0 \<and>
   getMaxFreq (exZoomed (- 40) 30) = real_of_int 100 \<and>
   (0::int) \<le> 30 \<and> (30::int) \<le> 100 - 0 \<and>
   getZoomRange exFloatLe (exZoomed (- 40) 30) = Some (0, 30, False) \<and>
   m_waterfall (exZoomed 0 150) = Some (exWaterfall\<lparr>fftCenterFreq := 0, spanFreq := 150\<rparr>) \<and>
   (50::int) + 0 - 150 sdiv 2 \<le> 0 \<and> (100::int) \<le> 50 + 0 + 150 sdiv 2 \<and>
   getZoomRange exFloatLe (exZoomed 0 150) = Some (0, 100, False)"
  using getZoomRange_window
          [where s = "exZoomed (- 40) 30" and a = 0 and b = 100 and floatLe = exFloatLe
             and w = "exWaterfall\<lparr>fftCenterFreq := - 40, spanFreq := 30\<rparr>"]
        getZoomRange_window
          [where s = "exZoomed 0 150" and a = 0 and b = 100 and floatLe = exFloatLe
             and w = "exWaterfall\<lparr>fftCenterFreq := 0, spanFreq := 150\<rparr>"]
  by (simp add: getZoomRange_def clampShift_def Let_def getMinFreq_def getMaxFreq_def
      exFloatLe_def qint64_cast_def signed_divide_int_def ex_defs)

text \<open>
  C1 as stated fails in three ways. In the range 0 to 100 Hz, a span of 3 Hz around 50 Hz
  gives the window \<open>(49, 51)\<close>: the range is wider than the span, yet the width is 2, not 3.
  A span of 150 Hz around 0 Hz hits the left border only (\<open>0 + 75 < 100\<close>), so the upper
  bound becomes \<open>0 + 150\<close>, above the scan range. And with the lower bound at 0.5 Hz, a span
  of 10 Hz around 0 Hz is clamped to the truncated bound 0, below the scan range.
\<close>

theorem getZoomRange_counterexample:
  "getZoomRange exFloatLe (exZoomed 0 3) = Some (49, 51, True) \<and>
   real_of_int 3 \<le> getMaxFreq (exZoomed 0 3) - getMinFreq (exZoomed 0 3) \<and>
   (51::int) - 49 \<noteq> 3 \<and>
   getZoomRange exFloatLe (exZoomed (- 50) 150) = Some (0, 150, False) \<and>
   \<not> real_of_int 150 \<le> getMaxFreq (exZoomed (- 50) 150) \<and>
   getZoomRange exFloatLe ((exZoomed (- 50) 10)\<lparr>rangeStartSpin := 1 / 2\<rparr>)
     = Some (0, 10, True) \<and>
   \<not> getMinFreq ((exZoomed (- 50) 10)\<lparr>rangeStartSpin := 1 / 2\<rparr>) \<le> real_of_int 0"
  by (simp add: getZoomRange_def clampShift_def Let_def getMinFreq_def getMaxFreq_def
      exFloatLe_def qint64_cast_def signed_divide_int_def ex_defs)

section \<open>Range normalisation (C6)\<close>

text \<open>
  C6. Whatever values \<open>a\<close> and \<open>b\<close> the two spin boxes hold when \<^verbatim>\<open>adjustRanges\<close> runs,
  the range read back afterwards has its lower end first: the pair is \<open>(b, a)\<close> when
  \<open>a > b\<close> and \<open>(a, b)\<close> otherwise. The function has no failure path.
\<close>

theorem adjustRanges_normalises_range:
  "rangeStartSpin (fst (adjustRanges floatLe rz (s\<lparr>rangeStartSpin := a, rangeEndSpin := b\<rparr>)))
     \<le> rangeEndSpin (fst (adjustRanges floatLe rz (s\<lparr>rangeStartSpin := a, rangeEndSpin := b\<rparr>))) \<and>
   (rangeStartSpin (fst (adjustRanges floatLe rz (s\<lparr>rangeStartSpin := a, rangeEndSpin := b\<rparr>))),
    rangeEndSpin (fst (adjustRanges floatLe rz (s\<lparr>rangeStartSpin := a, rangeEndSpin := b\<rparr>))))
     = (if a > b then (b, a) else (a, b))"
  by (simp add: adjustRanges_spins swapReversed_spins)

text \<open>The reversed input \<open>(200, 100)\<close> is stored as \<open>(100, 200)\<close>.\<close>

theorem adjustRanges_normalises_range_witness:
  "rangeStartSpin (fst (adjustRanges exFloatLe exReset
      (exDialog\<lparr>rangeStartSpin := 200, rangeEndSpin := 100\<rparr>))) = 100 \<and>
   rangeEndSpin (fst (adjustRanges exFloatLe exReset
      (exDialog\<lparr>rangeStartSpin := 200, rangeEndSpin := 100\<rparr>))) = 200"
  using adjustRanges_normalises_range
          [where floatLe = exFloatLe and rz = exReset and s = exDialog and a = 200 and b = 100]
  by simp

section \<open>Default demodulation bandwidth (C9)\<close>

text \<open>
  C9. When the dialog has a waterfall, \<^verbatim>\<open>adjustRanges\<close> sets the low and high cut
  frequencies to \<open>- h\<close> and \<open>h\<close>, where \<open>h\<close> is the smaller of \<open>bandwidth / 20 / 2\<close> and
  \<open>2 000 000 000\<close>, the bandwidth being that of the range read back; and \<open>h\<close> is half of the
  smaller of \<open>bandwidth / 20\<close> and \<open>4e9\<close>, that is \<open>bandwidth / 40\<close> capped at 2 GHz.
\<close>

theorem adjustRanges_demod_half_bandwidth:
  assumes "m_waterfall s = Some w"
  shows "map_option hiLowCut (m_waterfall (fst (adjustRanges floatLe rz s))) =
           Some (- min ((rangeEndSpin (fst (adjustRanges floatLe rz s))
                          - rangeStartSpin (fst (adjustRanges floatLe rz s))) / 20 / 2) 2000000000,
                 min ((rangeEndSpin (fst (adjustRanges floatLe rz s))
                        - rangeStartSpin (fst (adjustRanges floatLe rz s))) / 20 / 2) 2000000000) \<and>
         min ((rangeEndSpin (fst (adjustRanges floatLe rz s))
                - rangeStartSpin (fst (adjustRanges floatLe rz s))) / 20 / 2) 2000000000
           = min ((rangeEndSpin (fst (adjustRanges floatLe rz s))
                    - rangeStartSpin (fst (adjustRanges floatLe rz s))) / 20) 4000000000 / 2 \<and>
         min ((rangeEndSpin (fst (adjustRanges floatLe rz s))
                - rangeStartSpin (fst (adjustRanges floatLe rz s))) / 20 / 2) 2000000000
           = min ((rangeEndSpin (fst (adjustRanges floatLe rz s))
                    - rangeStartSpin (fst (adjustRanges floatLe rz s))) / 40) 2000000000"
proof -
  have wf: "map_option hiLowCut (m_waterfall (fst (adjustRanges floatLe rz s))) =
      Some (- min ((rangeEndSpin (swapReversed s) - rangeStartSpin (swapReversed s)) / 20 / 2) 2000000000,
            min ((rangeEndSpin (swapReversed s) - rangeStartSpin (swapReversed s)) / 20 / 2) 2000000000)"
    by (simp add: adjustRanges_Some [OF assms] hiLowCut_waterfallAfterReset)
  show ?thesis
    unfolding wf adjustRanges_spins by (simp add: min_def)
qed

text \<open>
  Two ranges: 0 to 100 Hz gives \<open>\<plusminus>2.5\<close> Hz; 0 to 200 GHz gives \<open>\<plusminus>2\<close> GHz, where the cap
  applies (\<open>200e9 / 40 = 5e9\<close>).
\<close>

theorem adjustRanges_demod_half_bandwidth_witness:
  "m_waterfall exDialog = Some exWaterfall \<and>
   map_option hiLowCut (m_waterfall (fst (adjustRanges exFloatLe exReset exDialog)))
     = Some (- 5 / 2, 5 / 2) \<and>
   m_waterfall (exDialog\<lparr>rangeEndSpin := 200000000000\<rparr>) = Some exWaterfall \<and>
   map_option hiLowCut (m_waterfall (fst (adjustRanges exFloatLe exReset
      (exDialog\<lparr>rangeEndSpin := 200000000000\<rparr>))))
     = Some (- 2000000000, 2000000000)"
  using adjustRanges_demod_half_bandwidth
          [where s = exDialog and w = exWaterfall and rz = exReset and floatLe = exFloatLe]
        adjustRanges_demod_half_bandwidth
          [where s = "exDialog\<lparr>rangeEndSpin := 200000000000\<rparr>" and w = exWaterfall
             and rz = exReset and floatLe = exFloatLe]
  by (simp add: adjustRanges_spins swapReversed_spins exDialog_def)

section \<open>Panning keeps the fixed-frequency flag (C10)\<close>

lemma pans_frame:
  assumes "m_waterfall s = Some w"
  shows "\<exists>outs. pans s fs = Some (s, outs) \<and>
           length outs = (if m_running s then length fs else 0) \<and>
           list_all (\<lambda>x. signalFlag x = m_fixedFreqMode s) outs"
proof (induction fs)
  case Nil
  show ?case by simp
next
  case (Cons f fs)
  obtain mn mx where one: "onNewFftCenterFreq s f =
      Some (s, if m_running s then [DetailChanged mn mx (m_fixedFreqMode s)] else [])"
    using onNewFftCenterFreq_frame [OF assms] by blast
  from Cons.IH obtain outs where rest: "pans s fs = Some (s, outs)"
      "length outs = (if m_running s then length fs else 0)"
      "list_all (\<lambda>x. signalFlag x = m_fixedFreqMode s) outs"
    by blast
  show ?case using one rest by simp
qed

lemma onNewZoomLevel_flag:
  assumes "onNewZoomLevel floatLe s0 = Some (s, sigs)"
  shows "\<exists>mn mx. getZoomRange floatLe s0 = Some (mn, mx, m_fixedFreqMode s)"
  using assms by (auto simp: onNewZoomLevel_def Let_def split: option.splits)

text \<open>
  C10. In a dialog with a waterfall, any run of pan events returns the dialog state as it
  was (so \<^verbatim>\<open>m_fixedFreqMode\<close> is not modified), emits one \<^verbatim>\<open>detailChanged\<close> per event while
  the scan runs and none otherwise, and every signal carries the stored flag. If the state
  is the one left by a zoom event, that flag is the one \<^verbatim>\<open>getZoomRange\<close> computed at the
  zoom event. The width of the panned window plays no part.
\<close>

theorem pan_keeps_fixed_mode:
  assumes "m_waterfall s = Some w"
  shows "\<exists>outs. pans s fs = Some (s, outs) \<and>
           length outs = (if m_running s then length fs else 0) \<and>
           list_all (\<lambda>x. signalFlag x = m_fixedFreqMode s) outs \<and>
           (\<forall>s0 sigs. onNewZoomLevel floatLe s0 = Some (s, sigs) \<longrightarrow>
              (\<exists>mn mx. getZoomRange floatLe s0 = Some (mn, mx, m_fixedFreqMode s)))"
  using pans_frame [OF assms, of fs] onNewZoomLevel_flag [of floatLe] by blast

text \<open>
  A zoom to 11 Hz around 3 Hz hits the left border: the window is \<open>(0, 11)\<close>, wider than the
  threshold of 10 Hz, and the flag is stored as false. A pan back to the centre then gives the
  window \<open>(45, 55)\<close>, whose width 10 is within the threshold; the signal still carries false.
\<close>

theorem pan_keeps_fixed_mode_witness:
  "m_waterfall ((exZoomed (- 47) 11)\<lparr>m_fixedFreqMode := False, m_currBw := 11\<rparr>)
     = Some (exWaterfall\<lparr>fftCenterFreq := - 47, spanFreq := 11\<rparr>) \<and>
   onNewZoomLevel exFloatLe (exZoomed (- 47) 11)
     = Some ((exZoomed (- 47) 11)\<lparr>m_fixedFreqMode := False, m_currBw := 11\<rparr>,
             [DetailChanged 0 11 False]) \<and>
   getZoomRange exFloatLe (exZoomed (- 47) 11) = Some (0, 11, False) \<and>
   pans ((exZoomed (- 47) 11)\<lparr>m_fixedFreqMode := False, m_currBw := 11\<rparr>) [0]
     = Some ((exZoomed (- 47) 11)\<lparr>m_fixedFreqMode := False, m_currBw := 11\<rparr>,
             [DetailChanged 45 55 False]) \<and>
   exFloatLe (55 - 45) (m_minBwForZoom (exZoomed (- 47) 11)) (relBwSlider (exZoomed (- 47) 11))"
  using pan_keeps_fixed_mode
          [where s = "(exZoomed (- 47) 11)\<lparr>m_fixedFreqMode := False, m_currBw := 11\<rparr>"
             and w = "exWaterfall\<lparr>fftCenterFreq := - 47, spanFreq := 11\<rparr>" and fs = "[0]"
             and floatLe = exFloatLe]
  by (simp add: onNewZoomLevel_def onNewFftCenterFreq_def getZoomRange_def clampShift_def Let_def
      getMinFreq_def getMaxFreq_def exFloatLe_def qint64_cast_def signed_divide_int_def ex_defs)

section \<open>Frames are stored as they come (C2)\<close>

text \<open>
  C2, as amended. \<^verbatim>\<open>feed\<close> has no validation: in a dialog with a waterfall, every call,
  whatever the bounds and the samples (also with \<open>start \<ge> end\<close> or no samples), replaces the
  snapshot by \<open>(start, end, samples)\<close>, records the bounds, counts one more frame, enables the
  export button and hands the frame to the waterfall. No frame is rejected.
\<close>

theorem feed_replaces_snapshot:
  assumes "m_waterfall s = Some w"
  shows "\<exists>s'. feed s start fin dat = Some s' \<and>
           m_saved s' = \<lparr>sp_start = start, sp_end = fin, sp_data = dat\<rparr> \<and>
           m_freqStart s' = start \<and> m_freqEnd s' = fin \<and>
           m_frames s' = m_frames s + 1 \<and> exportButtonEnabled s' \<and>
           map_option partialFft (m_waterfall s') = Some (Some (dat, start, fin))"
  using assms by (simp add: feed_def saved_set_def Let_def)

text \<open>The empty frame from 5 Hz to 5 Hz, fed after a good frame.\<close>

theorem feed_replaces_snapshot_witness:
  "m_waterfall exFed = Some exWaterfall \<and>
   map_option m_saved (feed exFed 5 5 []) = Some \<lparr>sp_start = 5, sp_end = 5, sp_data = []\<rparr> \<and>
   map_option m_frames (feed exFed 5 5 []) = Some 2"
  using feed_replaces_snapshot
          [where s = exFed and w = exWaterfall and start = 5 and fin = 5 and dat = "[]"]
  by (auto simp: ex_defs)

text \<open>
  C2 as stated fails: with the snapshot \<open>(1000000, 2000000, [1, 2, 3])\<close> in place, the call
  \<^verbatim>\<open>feed(5, 5, {})\<close> (\<open>start = end\<close>, no samples) is accepted and overwrites the snapshot.
\<close>

theorem feed_counterexample:
  "m_saved exFed = \<lparr>sp_start = 1000000, sp_end = 2000000, sp_data = [1, 2, 3]\<rparr> \<and>
   map_option m_saved (feed exFed 5 5 []) = Some \<lparr>sp_start = 5, sp_end = 5, sp_data = []\<rparr> \<and>
   map_option m_saved (feed exFed 5 5 []) \<noteq> Some (m_saved exFed)"
  by (simp add: feed_def saved_set_def Let_def ex_defs)

section \<open>What a range change resets (C3)\<close>

text \<open>
  C3, as amended. A range change does not clear the saved snapshot: \<^verbatim>\<open>m_saved\<close> is left as
  it was, whatever the widget does during the reset of its zoom. With a waterfall, the
  partial FFT data held by the widget is cleared. The fixed-frequency flag is not reset: it
  and \<^verbatim>\<open>m_currBw\<close> keep their values unless the widget emits \<^verbatim>\<open>newZoomLevel\<close> during
  \<^verbatim>\<open>resetHorizontalZoom\<close>, in which case the connected slot stores the flag and the width
  that \<^verbatim>\<open>getZoomRange\<close> computes for the view after the reset. Without a waterfall nothing
  but the order of the two bounds changes.
\<close>

theorem range_change_keeps_snapshot:
  "m_saved (fst (onFreqRangeChanged floatLe rz s)) = m_saved s \<and>
   (case m_waterfall s of
      None \<Rightarrow>
        m_waterfall (fst (onFreqRangeChanged floatLe rz s)) = None \<and>
        m_fixedFreqMode (fst (onFreqRangeChanged floatLe rz s)) = m_fixedFreqMode s \<and>
        m_currBw (fst (onFreqRangeChanged floatLe rz s)) = m_currBw s
    | Some w \<Rightarrow>
        map_option partialFft (m_waterfall (fst (onFreqRangeChanged floatLe rz s))) = Some None \<and>
        (let reset = rz (waterfallBeforeReset (rangeStartSpin (swapReversed s))
                           (rangeEndSpin (swapReversed s)) w);
             atReset = (swapReversed s)\<lparr>m_waterfall := Some (fst reset)\<rparr>
         in if NewZoomLevel \<in> set (snd reset)
            then \<exists>mn mx. getZoomRange floatLe atReset =
                     Some (mn, mx, m_fixedFreqMode (fst (onFreqRangeChanged floatLe rz s))) \<and>
                   m_currBw (fst (onFreqRangeChanged floatLe rz s)) = mx - mn
            else m_fixedFreqMode (fst (onFreqRangeChanged floatLe rz s)) = m_fixedFreqMode s \<and>
                 m_currBw (fst (onFreqRangeChanged floatLe rz s)) = m_currBw s))"
proof (cases "m_waterfall s")
  case None
  then show ?thesis
    by (simp add: onFreqRangeChanged_def adjustRanges_None swapReversed_frame)
next
  case (Some w)
  define reset where "reset = rz (waterfallBeforeReset (rangeStartSpin (swapReversed s))
                           (rangeEndSpin (swapReversed s)) w)"
  define atReset where "atReset = (swapReversed s)\<lparr>m_waterfall := Some (fst reset)\<rparr>"
  have aw: "m_waterfall atReset = Some (fst reset)" by (simp add: atReset_def)
  obtain mn mx nh where z: "getZoomRange floatLe atReset = Some (mn, mx, nh)"
    using getZoomRange_total [OF aw] by blast
  define s1 where "s1 = fst (runSlots floatLe atReset (snd reset))"
  have s1: "s1 = (if NewZoomLevel \<in> set (snd reset)
                  then atReset\<lparr>m_fixedFreqMode := nh, m_currBw := mx - mn\<rparr> else atReset)"
    unfolding s1_def by (rule runSlots_state [OF aw z])
  have res: "fst (onFreqRangeChanged floatLe rz s) =
      s1\<lparr>m_waterfall := Some (waterfallAfterReset (rangeStartSpin (swapReversed s))
                               (rangeEndSpin (swapReversed s)) (fst reset))\<rparr>"
    by (simp add: onFreqRangeChanged_def adjustRanges_Some [OF Some] s1_def atReset_def reset_def)
  have saved: "m_saved (fst (onFreqRangeChanged floatLe rz s)) = m_saved s"
    by (simp add: res s1 atReset_def swapReversed_frame)
  have cleared: "map_option partialFft (m_waterfall (fst (onFreqRangeChanged floatLe rz s))) = Some None"
    by (simp add: res partialFft_waterfallAfterReset)
  have flag: "if NewZoomLevel \<in> set (snd reset)
      then \<exists>mn mx. getZoomRange floatLe atReset =
               Some (mn, mx, m_fixedFreqMode (fst (onFreqRangeChanged floatLe rz s))) \<and>
             m_currBw (fst (onFreqRangeChanged floatLe rz s)) = mx - mn
      else m_fixedFreqMode (fst (onFreqRangeChanged floatLe rz s)) = m_fixedFreqMode s \<and>
           m_currBw (fst (onFreqRangeChanged floatLe rz s)) = m_currBw s"
    using z by (simp add: res s1 atReset_def swapReversed_frame)
  show ?thesis
    using saved cleared flag Some by (auto simp: Let_def reset_def atReset_def)
qed

text \<open>
  After one frame the range is edited to \<open>(200, 100)\<close>. The snapshot stays and the data of
  the widget is cleared. With the flag set beforehand: a reset that emits \<^verbatim>\<open>newZoomLevel\<close>
  leaves the flag computed for the window \<open>(100, 200)\<close>, which is false at a threshold of
  10 Hz, and the width 100; a reset that emits nothing leaves the flag set.
\<close>

theorem range_change_keeps_snapshot_witness:
  "m_saved (fst (onFreqRangeChanged exFloatLe exReset (exScanned\<lparr>rangeStartSpin := 200\<rparr>)))
     = exSnapshot \<and>
   map_option partialFft (m_waterfall exScanned) = Some (Some ([1, 2, 3], 1000000, 2000000)) \<and>
   map_option partialFft
     (m_waterfall (fst (onFreqRangeChanged exFloatLe exReset (exScanned\<lparr>rangeStartSpin := 200\<rparr>))))
     = Some None \<and>
   m_fixedFreqMode (fst (onFreqRangeChanged exFloatLe exReset
      (exScanned\<lparr>rangeStartSpin := 200, m_fixedFreqMode := True\<rparr>))) = False \<and>
   m_currBw (fst (onFreqRangeChanged exFloatLe exReset
      (exScanned\<lparr>rangeStartSpin := 200, m_fixedFreqMode := True\<rparr>))) = 100 \<and>
   m_fixedFreqMode (fst (onFreqRangeChanged exFloatLe exQuietReset
      (exScanned\<lparr>rangeStartSpin := 200, m_fixedFreqMode := True\<rparr>))) = True"
  using range_change_keeps_snapshot
          [where floatLe = exFloatLe and rz = exReset and s = "exScanned\<lparr>rangeStartSpin := 200\<rparr>"]
        range_change_keeps_snapshot
          [where floatLe = exFloatLe and rz = exReset
             and s = "exScanned\<lparr>rangeStartSpin := 200, m_fixedFreqMode := True\<rparr>"]
        range_change_keeps_snapshot
          [where floatLe = exFloatLe and rz = exQuietReset
             and s = "exScanned\<lparr>rangeStartSpin := 200, m_fixedFreqMode := True\<rparr>"]
  by (simp add: onFreqRangeChanged_def adjustRanges_def swapReversed_def Let_def ex_defs
      exReset_def exQuietReset_def exFloatLe_def waterfallBeforeReset_def waterfallAfterReset_def
      slot_def onNewZoomLevel_def getZoomRange_def clampShift_def getMinFreq_def getMaxFreq_def
      qint64_cast_def signed_divide_int_def getFrequencyUnits_def)

text \<open>
  C3 as stated fails: after one frame the range is edited to \<open>(200, 100)\<close>. The slot stores
  \<open>(100, 200)\<close>, and the snapshot still holds the three samples, with either reset.
\<close>

theorem range_change_counterexample:
  "sp_data (m_saved exScanned) = [1, 2, 3] \<and>
   (rangeStartSpin (fst (onFreqRangeChanged exFloatLe exReset (exScanned\<lparr>rangeStartSpin := 200\<rparr>))),
    rangeEndSpin (fst (onFreqRangeChanged exFloatLe exReset (exScanned\<lparr>rangeStartSpin := 200\<rparr>))))
     = (100, 200) \<and>
   sp_data (m_saved (fst (onFreqRangeChanged exFloatLe exReset (exScanned\<lparr>rangeStartSpin := 200\<rparr>))))
     = [1, 2, 3] \<and>
   sp_data (m_saved (fst (onFreqRangeChanged exFloatLe exQuietReset (exScanned\<lparr>rangeStartSpin := 200\<rparr>))))
     = [1, 2, 3]"
  by (simp add: onFreqRangeChanged_def adjustRanges_def swapReversed_def Let_def ex_defs
      exReset_def exQuietReset_def exFloatLe_def waterfallBeforeReset_def waterfallAfterReset_def
      slot_def onNewZoomLevel_def getZoomRange_def clampShift_def getMinFreq_def getMaxFreq_def
      qint64_cast_def signed_divide_int_def getFrequencyUnits_def)

section \<open>The export script (C4, C5)\<close>

lemma writeSamples_unwords:
  "xs \<noteq> [] \<Longrightarrow> writeSamples fmt xs = unwords (map fmt xs) @ '' ''"
proof (induction xs)
  case Nil
  then show ?case by simp
next
  case (Cons x xs)
  show ?case
  proof (cases xs)
    case Nil
    then show ?thesis by simp
  next
    case (Cons y ys)
    with Cons.IH show ?thesis by simp
  qed
qed

lemma exportText_script:
  assumes "sp_data sv \<noteq> []"
  shows "exportText fmt sv = unlines (spec_script fmt (sp_start sv) (sp_end sv) (sp_data sv))"
  using writeSamples_unwords [OF assms, of fmt]
  by (simp add: exportText_def unlines_def spec_script_def)

lemma exportText_empty:
  assumes "sp_data sv = []"
  shows "exportText fmt sv =
     unlines [''%'', ''% Panoramic Spectrum file generated by SigDigger'', ''%'', '''',
              ''freqMin = '' @ show_qint64 (sp_start sv) @ '';'',
              ''freqMax = '' @ show_qint64 (sp_end sv) @ '';'',
              ''PSD = [ ];'']"
  using assms by (simp add: exportText_def unlines_def)

lemma show_qint64_examples:
  "show_qint64 0 = ''0''" "show_qint64 1 = ''1''" "show_qint64 2 = ''2''" "show_qint64 3 = ''3''"
  "show_qint64 1000000 = ''1000000''" "show_qint64 2000000 = ''2000000''"
  by (simp_all add: show_qint64_def show_nat.simps digit_char_def)

lemma exFmt_examples: "exFmt 1 = ''1''" "exFmt 2 = ''2''" "exFmt 3 = ''3''"
  by (simp_all add: exFmt_def qint64_cast_def show_qint64_examples)

lemma feed_saved:
  assumes "feed s start fin dat = Some s'"
  shows "m_saved s' = \<lparr>sp_start = start, sp_end = fin, sp_data = dat\<rparr>"
  using assms by (auto simp: feed_def saved_set_def Let_def split: option.splits)

text \<open>
  C4, as amended. \<^verbatim>\<open>exportToFile\<close> does not look at the number of samples: on a snapshot
  without samples and a path that opens, it succeeds and writes the header, the two bounds
  and the empty list \<^verbatim>\<open>PSD = [ ];\<close>. (The guard against an export before the first frame is
  the export button, which \<^verbatim>\<open>feed\<close> enables.)
\<close>

theorem export_empty_snapshot_succeeds:
  assumes "sp_data sv = []" and "canOpen path"
  shows "exportToFile canOpen fmt files sv path =
     (True, files(path \<mapsto>
        unlines [''%'', ''% Panoramic Spectrum file generated by SigDigger'', ''%'', '''',
                 ''freqMin = '' @ show_qint64 (sp_start sv) @ '';'',
                 ''freqMax = '' @ show_qint64 (sp_end sv) @ '';'',
                 ''PSD = [ ];'']))"
  using assms by (simp add: exportToFile_def exportText_empty)

theorem export_empty_snapshot_succeeds_witness:
  "sp_data (m_saved exDialog) = [] \<and> (\<lambda>p. p = ''out.m'') ''out.m'' \<and>
   exportToFile (\<lambda>p. p = ''out.m'') exFmt Map.empty (m_saved exDialog) ''out.m'' =
     (True, [''out.m'' \<mapsto>
        unlines [''%'', ''% Panoramic Spectrum file generated by SigDigger'', ''%'', '''',
                 ''freqMin = 0;'', ''freqMax = 0;'', ''PSD = [ ];'']])"
  using export_empty_snapshot_succeeds
     [where sv = "m_saved exDialog" and canOpen = "\<lambda>p. p = ''out.m''" and path = "''out.m''"
        and fmt = exFmt and files = Map.empty]
  by (simp add: show_qint64_examples ex_defs)

text \<open>
  C4 as stated fails: in the dialog that has received no frame, the export reports success
  and the file is written.
\<close>

theorem export_empty_counterexample:
  "sp_data (m_saved exDialog) = [] \<and>
   fst (exportToFile (\<lambda>p. True) exFmt Map.empty (m_saved exDialog) ''out.m'') \<and>
   snd (exportToFile (\<lambda>p. True) exFmt Map.empty (m_saved exDialog) ''out.m'') ''out.m'' =
     Some (''%\<newline>% Panoramic Spectrum file generated by SigDigger\<newline>%\<newline>\<newline>'' @
           ''freqMin = 0;\<newline>freqMax = 0;\<newline>PSD = [ ];\<newline>'')"
  by (simp add: exportToFile_def exportText_def show_qint64_examples ex_defs)

text \<open>
  C5. After \<^verbatim>\<open>feed(start, end, samples)\<close> with at least one sample, an export to a path that
  opens succeeds and the file holds exactly the lines of the specification: the three
  comment lines and the blank line, \<^verbatim>\<open>freqMin = <start>;\<close>, \<^verbatim>\<open>freqMax = <end>;\<close> and
  \<^verbatim>\<open>PSD = [ v1 v2 ... vn ];\<close> with all samples in order, each printed by the stream; an
  export to a path that does not open returns false and writes nothing.
\<close>

theorem exportToFile_script:
  assumes "feed s start fin samples = Some s'" and "samples \<noteq> []"
  shows "(canOpen path \<longrightarrow>
            exportToFile canOpen fmt files (m_saved s') path =
              (True, files(path \<mapsto> unlines (spec_script fmt start fin samples)))) \<and>
         (\<not> canOpen path \<longrightarrow>
            exportToFile canOpen fmt files (m_saved s') path = (False, files))"
  using exportText_script [of "m_saved s'" fmt] assms(2)
  by (simp add: exportToFile_def feed_saved [OF assms(1)])

text \<open>
  The example of the specification, \<^verbatim>\<open>feed(1000000, 2000000, {1, 2, 3})\<close>, exported to a path
  that opens and to one that does not.
\<close>

theorem exportToFile_script_witness:
  "feed exDialog 1000000 2000000 [1, 2, 3] =
     Some (exFed\<lparr>m_waterfall :=
        Some (exWaterfall\<lparr>partialFft := Some ([1, 2, 3], 1000000, 2000000)\<rparr>)\<rparr>) \<and>
   [1, 2, 3] \<noteq> ([] :: real list) \<and>
   (\<lambda>p. p = ''out.m'') ''out.m'' \<and>
   exportToFile (\<lambda>p. p = ''out.m'') exFmt Map.empty
       (m_saved (exFed\<lparr>m_waterfall :=
          Some (exWaterfall\<lparr>partialFft := Some ([1, 2, 3], 1000000, 2000000)\<rparr>)\<rparr>))
       ''out.m'' =
     (True, [''out.m'' \<mapsto> unlines
        [''%'', ''% Panoramic Spectrum file generated by SigDigger'', ''%'', '''',
         ''freqMin = 1000000;'', ''freqMax = 2000000;'', ''PSD = [ 1 2 3 ];'']]) \<and>
   \<not> (\<lambda>p. p = ''out.m'') ''/proc/out.m'' \<and>
   exportToFile (\<lambda>p. p = ''out.m'') exFmt Map.empty
       (m_saved (exFed\<lparr>m_waterfall :=
          Some (exWaterfall\<lparr>partialFft := Some ([1, 2, 3], 1000000, 2000000)\<rparr>)\<rparr>))
       ''/proc/out.m'' = (False, Map.empty)"
proof -
  have f: "feed exDialog 1000000 2000000 [1, 2, 3] =
     Some (exFed\<lparr>m_waterfall :=
        Some (exWaterfall\<lparr>partialFft := Some ([1, 2, 3], 1000000, 2000000)\<rparr>)\<rparr>)"
    by (simp add: feed_def saved_set_def Let_def ex_defs)
  show ?thesis
    using exportToFile_script [OF f, where canOpen = "\<lambda>p. p = ''out.m''" and path = "''out.m''"
            and fmt = exFmt and files = Map.empty]
          exportToFile_script [OF f, where canOpen = "\<lambda>p. p = ''out.m''"
            and path = "''/proc/out.m''" and fmt = exFmt and files = Map.empty]
    by (simp add: f spec_script_def show_qint64_examples exFmt_examples)
qed

section \<open>The gain store as a map (C7)\<close>

lemma sep_append_inj:
  assumes "c \<notin> set xs" "c \<notin> set xs'" "xs @ c # ys = xs' @ c # ys'"
  shows "xs = xs' \<and> ys = ys'"
  using assms
proof (induction xs arbitrary: xs')
  case Nil
  then show ?case by (cases xs') auto
next
  case (Cons x xs)
  then show ?case by (cases xs') auto
qed

lemma fullName_inj:
  assumes "CHR ''.'' \<notin> set d" "CHR ''.'' \<notin> set d'" "fullName d s = fullName d' s'"
  shows "d = d' \<and> s = s'"
  using sep_append_inj [OF assms(1,2), of s s'] assms(3) by (simp add: fullName_def)

text \<open>
  C7, as amended. In the empty store \<^verbatim>\<open>getGain\<close> gives 0 and \<^verbatim>\<open>hasGain\<close> is false; after
  \<^verbatim>\<open>setGain(d, s, v)\<close>, \<^verbatim>\<open>getGain(d, s)\<close> gives \<open>v\<close> and \<^verbatim>\<open>hasGain(d, s)\<close> is true; and a
  \<^verbatim>\<open>setGain\<close> on another pair \<open>(d', s')\<close> leaves both answers for \<open>(d, s)\<close> unchanged provided
  neither device name contains a dot. The stage names are arbitrary.
\<close>

theorem gain_store_map:
  "getGain Map.empty d s = 0 \<and> \<not> hasGain Map.empty d s \<and>
   getGain (setGain g d s v) d s = v \<and> hasGain (setGain g d s v) d s \<and>
   ((d', s') \<noteq> (d, s) \<and> CHR ''.'' \<notin> set d \<and> CHR ''.'' \<notin> set d' \<longrightarrow>
      getGain (setGain g d' s' w) d s = getGain g d s \<and>
      hasGain (setGain g d' s' w) d s = hasGain g d s)"
proof -
  have frame: "fullName d s \<noteq> fullName d' s'"
    if "(d', s') \<noteq> (d, s)" "CHR ''.'' \<notin> set d" "CHR ''.'' \<notin> set d'"
    using fullName_inj [OF that(2,3)] that(1) by auto
  show ?thesis
    using frame by (auto simp: getGain_def hasGain_def setGain_def)
qed

text \<open>The example of the specification, followed by a \<^verbatim>\<open>setGain\<close> on another stage.\<close>

theorem gain_store_map_witness:
  "getGain Map.empty ''hackrf'' ''LNA'' = 0 \<and>
   getGain (setGain Map.empty ''hackrf'' ''LNA'' 14) ''hackrf'' ''LNA'' = 14 \<and>
   hasGain (setGain Map.empty ''hackrf'' ''LNA'' 14) ''hackrf'' ''LNA'' \<and>
   (''hackrf'', ''VGA'') \<noteq> (''hackrf'', ''LNA'') \<and>
   CHR ''.'' \<notin> set ''hackrf'' \<and>
   getGain (setGain (setGain Map.empty ''hackrf'' ''LNA'' 14) ''hackrf'' ''VGA'' 20)
     ''hackrf'' ''LNA'' = 14"
  using gain_store_map [where d = "''hackrf''" and s = "''LNA''" and v = 14
          and g = "setGain Map.empty ''hackrf'' ''LNA'' 14"
          and d' = "''hackrf''" and s' = "''VGA''" and w = 20]
  by (simp add: getGain_def setGain_def hasGain_def fullName_def)

text \<open>
  C7 as stated fails: the pairs \<open>(a, b.c)\<close> and \<open>(a.b, c)\<close> differ but share the key
  \<^verbatim>\<open>gain.a.b.c\<close>, so a \<^verbatim>\<open>setGain\<close> on the first changes \<^verbatim>\<open>getGain\<close> on the second.
\<close>

theorem gain_store_counterexample:
  "(''a'', ''b.c'') \<noteq> (''a.b'', ''c'') \<and>
   getGain Map.empty ''a.b'' ''c'' = 0 \<and>
   getGain (setGain Map.empty ''a'' ''b.c'' 5) ''a.b'' ''c'' = 5"
  by (simp add: getGain_def setGain_def fullName_def)

section \<open>Loading band plans (C8)\<close>

lemma deserializeFrequencyBand_valid:
  assumes "map_of e ''min'' = Some (FloatV x)" and "map_of e ''max'' = Some (FloatV y)"
  shows "deserializeFrequencyBand e =
     Inr \<lparr>band_min = qint64_cast x, band_max = qint64_cast y,
          band_primary = su_get_string e ''primary'' [],
          band_secondary = su_get_string e ''secondary'' [],
          band_footnotes = su_get_string e ''footnotes'' [],
          band_color = su_get_string e ''color'' ''#1f1f1f''\<rparr>"
  using assms by (simp add: deserializeFrequencyBand_def thenE_def su_get_float_def)

lemma deserializeFrequencyBand_no_min:
  assumes "map_of e ''min'' = None"
  shows "deserializeFrequencyBand e = Inl SuscanException"
  using assms by (simp add: deserializeFrequencyBand_def thenE_def su_get_float_def)

lemma pushBands_bands:
  "fat_name (pushBands es t) = fat_name t \<and>
   map Inr (fat_bands (pushBands es t)) =
     map Inr (fat_bands t) @
     filter (\<lambda>r. r \<noteq> Inl SuscanException) (map deserializeFrequencyBand es)"
proof (induction es arbitrary: t)
  case Nil
  show ?case by simp
next
  case (Cons e es)
  show ?case
  proof (cases "deserializeFrequencyBand e")
    case (Inl x)
    then have "deserializeFrequencyBand e = Inl SuscanException" by (cases x) simp
    then show ?thesis using Cons.IH [of t] by simp
  next
    case (Inr band)
    then show ?thesis using Cons.IH [of "t\<lparr>fat_bands := fat_bands t @ [band]\<rparr>"] by simp
  qed
qed

lemma pushBands_skip:
  assumes "deserializeFrequencyBand bad = Inl SuscanException"
  shows "pushBands (es1 @ bad # es2) t = pushBands (es1 @ es2) t"
proof (induction es1 arbitrary: t)
  case Nil
  show ?case using assms by simp
next
  case (Cons e es1)
  show ?case
  proof (cases "deserializeFrequencyBand e")
    case (Inl x)
    then have "deserializeFrequencyBand e = Inl SuscanException" by (cases x) simp
    then show ?thesis using Cons.IH [of t] by simp
  next
    case (Inr band)
    then show ?thesis using Cons.IH [of "t\<lparr>fat_bands := fat_bands t @ [band]\<rparr>"] by simp
  qed
qed

lemma loadTables_sets:
  assumes "\<forall>p \<in> set ps. \<exists>es. raw_bands p = SuSet es"
  shows "\<exists>new. loadTables ps acc = (acc @ new, None) \<and>
           list_all2 (\<lambda>p t. fat_name t = raw_name p \<and>
              (\<forall>es. raw_bands p = SuSet es \<longrightarrow>
                 map Inr (fat_bands t) =
                   filter (\<lambda>r. r \<noteq> Inl SuscanException) (map deserializeFrequencyBand es)))
             ps new"
  using assms
proof (induction ps arbitrary: acc)
  case Nil
  show ?case by simp
next
  case (Cons p ps)
  then obtain es where es: "raw_bands p = SuSet es" by auto
  define t where "t = pushBands es \<lparr>fat_name = raw_name p, fat_bands = []\<rparr>"
  have step: "loadTables (p # ps) acc = loadTables ps (acc @ [t])"
    by (simp add: es t_def Let_def)
  have tp: "fat_name t = raw_name p \<and>
      map Inr (fat_bands t) =
        filter (\<lambda>r. r \<noteq> Inl SuscanException) (map deserializeFrequencyBand es)"
    using pushBands_bands [of es "\<lparr>fat_name = raw_name p, fat_bands = []\<rparr>"]
    by (simp add: t_def)
  from Cons.prems have "\<forall>p \<in> set ps. \<exists>es. raw_bands p = SuSet es" by simp
  from Cons.IH [OF this, of "acc @ [t]"] obtain new where
    new: "loadTables ps (acc @ [t]) = ((acc @ [t]) @ new, None)"
      "list_all2 (\<lambda>p t. fat_name t = raw_name p \<and>
              (\<forall>es. raw_bands p = SuSet es \<longrightarrow>
                 map Inr (fat_bands t) =
                   filter (\<lambda>r. r \<noteq> Inl SuscanException) (map deserializeFrequencyBand es)))
         ps new"
    by blast
  show ?case
  proof (intro exI conjI)
    show "loadTables (p # ps) acc = (acc @ (t # new), None)"
      using step new(1) by simp
    show "list_all2 (\<lambda>p t. fat_name t = raw_name p \<and>
              (\<forall>es. raw_bands p = SuSet es \<longrightarrow>
                 map Inr (fat_bands t) =
                   filter (\<lambda>r. r \<noteq> Inl SuscanException) (map deserializeFrequencyBand es)))
            (p # ps) (t # new)"
      using tp new(2) es by simp
  qed
qed

lemma deserialize_examples:
  "deserializeFrequencyBand exEntry = Inr exBand"
  "deserializeFrequencyBand exEntry2 = Inr exBand2"
  "deserializeFrequencyBand [(''max'', FloatV 200)] = Inl SuscanException"
  by (simp_all add: deserializeFrequencyBand_def thenE_def su_get_float_def su_get_string_def
      exEntry_def exBand_def exEntry2_def exBand2_def qint64_cast_def)

text \<open>
  C8. Let the \<^verbatim>\<open>bands\<close> value of every table of the catalog be a set. Then loading into an
  empty \<^verbatim>\<open>m_FATs\<close> ends without an exception and yields one table per raw table, in order
  and under its name, whose bands are the results of deserialising its entries, in order,
  with the entries that raise left out. An entry without \<^verbatim>\<open>min\<close> raises; an entry with a
  numeric \<^verbatim>\<open>min\<close> and \<^verbatim>\<open>max\<close> does not; and a table loads with a malformed entry as it
  loads without it.
\<close>

theorem deserializeFATs_skips_malformed_entries:
  assumes "\<forall>p \<in> set catalog. \<exists>es. raw_bands p = SuSet es"
  shows "(\<exists>fats. deserializeFATs catalog [] = (fats, None) \<and>
            list_all2 (\<lambda>p t. fat_name t = raw_name p \<and>
               (\<forall>es. raw_bands p = SuSet es \<longrightarrow>
                  map Inr (fat_bands t) =
                    filter (\<lambda>r. r \<noteq> Inl SuscanException) (map deserializeFrequencyBand es)))
              catalog fats) \<and>
         (\<forall>e. map_of e ''min'' = None \<longrightarrow> deserializeFrequencyBand e = Inl SuscanException) \<and>
         (\<forall>e x y. map_of e ''min'' = Some (FloatV x) \<and> map_of e ''max'' = Some (FloatV y) \<longrightarrow>
            (\<exists>band. deserializeFrequencyBand e = Inr band)) \<and>
         (\<forall>bad es1 es2 t. deserializeFrequencyBand bad = Inl SuscanException \<longrightarrow>
            pushBands (es1 @ bad # es2) t = pushBands (es1 @ es2) t)"
  using loadTables_sets [OF assms, of "[]"] deserializeFrequencyBand_no_min
    deserializeFrequencyBand_valid pushBands_skip
  by (simp add: deserializeFATs_def)

text \<open>
  The example of the specification: the first entry of the first table has no \<^verbatim>\<open>min\<close>. It
  is skipped; the other entry of that table and the second table are loaded.
\<close>

theorem deserializeFATs_skips_malformed_entries_witness:
  "map raw_bands exCatalogNoMin = [SuSet [[(''max'', FloatV 200)], exEntry], SuSet [exEntry2]] \<and>
   map_of [(''max'', FloatV 200)] ''min'' = None \<and>
   deserializeFrequencyBand [(''max'', FloatV 200)] = Inl SuscanException \<and>
   deserializeFATs exCatalogNoMin [] =
     ([\<lparr>fat_name = ''ITU'', fat_bands = [exBand]\<rparr>, \<lparr>fat_name = ''EU'', fat_bands = [exBand2]\<rparr>],
      None)"
proof -
  have sets: "\<forall>p \<in> set exCatalogNoMin. \<exists>es. raw_bands p = SuSet es"
    by (simp add: exCatalogNoMin_def)
  have nomin: "map_of [(''max'', FloatV 200)] ''min'' = None" by simp
  have bad: "deserializeFrequencyBand [(''max'', FloatV 200)] = Inl SuscanException"
    using deserializeFATs_skips_malformed_entries [OF sets] nomin by blast
  show ?thesis
    using bad by (simp add: deserializeFATs_def exCatalogNoMin_def Let_def deserialize_examples)
qed

end
